theory Spec2Isabelle
  imports Main "HOL-Library.Word"
begin

section \<open>The session state of the PDF question-answering service\<close>

text \<open>
  The repository holds two variants of one server: \<^verbatim>\<open>src/index.js\<close> (several PDFs per
  upload, kept in the object \<^verbatim>\<open>pdfContexts\<close>) and \<^verbatim>\<open>src/unnamed/part_000\<close> (one PDF,
  kept in the string \<^verbatim>\<open>pdfContext\<close>). Both keep three module-level variables and
  change them in the handlers of \<^verbatim>\<open>POST /upload\<close> and \<^verbatim>\<open>POST /ask\<close>.

  An upload is what the multipart library hands to the handler: the files it yields,
  each with its name and the outcome of reading its buffer, and the error it throws
  while yielding, if any. A question is the JavaScript value of the \<^verbatim>\<open>question\<close>
  property of the JSON body. The two libraries the handlers call, \<^verbatim>\<open>pdf-parse\<close> and
  \<^verbatim>\<open>axios\<close>, are parameters of the model. One request is handled at a time. Strings
  are byte strings.
\<close>

subsection \<open>JavaScript values\<close>

text \<open>
  The values a JSON body can hold in its \<^verbatim>\<open>question\<close> property, and the values that
  \<^verbatim>\<open>response.data.content[0].text\<close> can be. \<open>JUndefined\<close> is a missing property, \<open>JNum\<close> an
  integer-valued number, \<open>JObject\<close> any object or array.
\<close>

datatype jsval = JUndefined | JNull | JBool bool | JNum int | JStr string | JObject

text \<open>\<^verbatim>\<open>!question\<close> is the negation of JavaScript's ToBoolean.\<close>

fun truthy :: "jsval \<Rightarrow> bool" where
  "truthy JUndefined = False"
| "truthy JNull = False"
| "truthy (JBool b) = b"
| "truthy (JNum n) = (n \<noteq> 0)"
| "truthy (JStr s) = (s \<noteq> [])"
| "truthy JObject = True"

text \<open>\<^verbatim>\<open>Array.prototype.join\<close> on an array of strings.\<close>

fun join :: "string \<Rightarrow> string list \<Rightarrow> string" where
  "join sep [] = []"
| "join sep [x] = x"
| "join sep (x # y # ys) = x @ sep @ join sep (y # ys)"

subsection \<open>The object \<^verbatim>\<open>pdfContexts\<close>\<close>

text \<open>
  \<^verbatim>\<open>pdfContexts\<close> starts as \<^verbatim>\<open>{}\<close> and only ever gets string values under string keys. It
  is modelled as the list of its own properties in the order of their creation.
  \<^verbatim>\<open>Object.keys\<close> and \<^verbatim>\<open>Object.values\<close> enumerate the keys that are array indices first,
  in ascending numeric order, and then the other keys in the order of creation.
\<close>

type_synonym js_object = "(string \<times> string) list"

definition is_digit :: "char \<Rightarrow> bool" where
  "is_digit c = (48 \<le> (of_char c :: nat) \<and> (of_char c :: nat) \<le> 57)"

definition decimal :: "string \<Rightarrow> nat" where
  "decimal k = foldl (\<lambda>n c. 10 * n + ((of_char c :: nat) - 48)) 0 k"

text \<open>An array index is the canonical decimal form of a number below \<open>2^32 - 1\<close>.\<close>

definition is_array_index :: "string \<Rightarrow> bool" where
  "is_array_index k =
     (k \<noteq> [] \<and> list_all is_digit k \<and> (k = ''0'' \<or> hd k \<noteq> CHR ''0'')
      \<and> decimal k < 2 ^ 32 - 1)"

text \<open>
  \<^verbatim>\<open>obj[k] = v\<close> for a string \<open>v\<close>: an existing own property keeps its place, a new one
  is created last. The key \<^verbatim>\<open>__proto__\<close> is the accessor inherited from
  \<^verbatim>\<open>Object.prototype\<close>, whose setter ignores a string: no own property is created.
\<close>

fun put :: "string \<Rightarrow> string \<Rightarrow> js_object \<Rightarrow> js_object" where
  "put k v [] = [(k, v)]"
| "put k v (p # ps) = (if fst p = k then (k, v) # ps else p # put k v ps)"

definition assign :: "string \<Rightarrow> string \<Rightarrow> js_object \<Rightarrow> js_object" where
  "assign k v obj = (if k = ''__proto__'' then obj else put k v obj)"

definition own_properties :: "js_object \<Rightarrow> js_object" where
  "own_properties obj =
     sort_key (\<lambda>p. decimal (fst p)) (filter (\<lambda>p. is_array_index (fst p)) obj)
     @ filter (\<lambda>p. \<not> is_array_index (fst p)) obj"

definition Object_keys :: "js_object \<Rightarrow> string list" where
  "Object_keys obj = map fst (own_properties obj)"

definition Object_values :: "js_object \<Rightarrow> string list" where
  "Object_values obj = map snd (own_properties obj)"

subsection \<open>State, requests and responses\<close>

text \<open>A turn of the conversation: \<^verbatim>\<open>{ role: ..., content: ... }\<close>.\<close>

record message =
  role :: string
  content :: jsval

text \<open>
  The module-level variables. \<open>session\<close> holds the two that both variants declare;
  each variant adds its document store.
\<close>

record session =
  systemPrompt :: string
  conversationHistory :: "message list"

record multi_state = session +
  pdfContexts :: js_object

record single_state = session +
  pdfContext :: string

definition multi_init :: multi_state where
  "multi_init = \<lparr>systemPrompt = [], conversationHistory = [], pdfContexts = []\<rparr>"

definition single_init :: single_state where
  "single_init = \<lparr>systemPrompt = [], conversationHistory = [], pdfContext = []\<rparr>"

text \<open>
  What a handler returns: \<^verbatim>\<open>{ success, message }\<close> or \<^verbatim>\<open>{ success: true, answer }\<close>; or
  it throws, \<open>Threw\<close> with the message of the error, and the framework sends an error
  reply.
\<close>

datatype response = Message bool string | Answer jsval | Threw string

type_synonym buffer = "8 word list"

text \<open>
  One file of a multipart upload, with its \<^verbatim>\<open>filename\<close> and the outcome of
  \<^verbatim>\<open>await file.toBuffer()\<close>: \<open>Inr\<close> the buffer, or \<open>Inl\<close> the message of the error it
  rejects with (a file over the size limit, a broken stream).
\<close>

record part =
  filename :: string
  toBuffer :: "string + buffer"

text \<open>
  \<^verbatim>\<open>PDFParser(buffer)\<close>: \<open>Inr\<close> the \<^verbatim>\<open>text\<close> of the parsed PDF, \<open>Inl\<close> the \<^verbatim>\<open>message\<close> of the
  error it throws.
\<close>

type_synonym pdf_parser = "buffer \<Rightarrow> string + string"

text \<open>
  \<^verbatim>\<open>axios.post\<close> followed by the read of \<^verbatim>\<open>response.data.content[0].text\<close>, as a function of
  the messages and the system prompt sent: \<open>Inr\<close> the value read, \<open>Inl\<close> the detail that
  the \<^verbatim>\<open>catch\<close> block of \<^verbatim>\<open>callClaudeAPI\<close> renders from the error.
\<close>

type_synonym http_post = "message list \<Rightarrow> string \<Rightarrow> string + jsval"

text \<open>The arguments of one invocation of \<^verbatim>\<open>callClaudeAPI\<close>.\<close>

type_synonym invocation = "message list \<times> string"

subsection \<open>\<^verbatim>\<open>callClaudeAPI\<close> (both variants)\<close>

definition callClaudeAPI :: "http_post \<Rightarrow> message list \<Rightarrow> string \<Rightarrow> string + jsval" where
  "callClaudeAPI post messages prompt =
     (case post messages prompt of
        Inr text \<Rightarrow> Inr text
      | Inl detail \<Rightarrow> Inl (''Failed to get response from Claude API: '' @ detail))"

subsection \<open>\<^verbatim>\<open>src/index.js\<close>: several documents\<close>

text \<open>
  The loop of the upload handler, \<^verbatim>\<open>for await (const file of files)\<close>, on the pair of
  \<^verbatim>\<open>pdfContexts\<close> and \<^verbatim>\<open>uploadedFiles\<close>. \<open>files\<close> are the files the iterator yields and
  \<open>thrown\<close> is the error that \<^verbatim>\<open>request.files()\<close> or its iterator throws after them, if it
  does. The read of the buffer stands before the \<^verbatim>\<open>try\<close> block: when it rejects, the
  loop and the handler end with that error, \<^verbatim>\<open>pdfContexts\<close> keeping what the earlier
  files assigned. A parse error is caught inside the loop and only logged. The loop
  gives \<^verbatim>\<open>pdfContexts\<close> and either the error thrown or \<^verbatim>\<open>uploadedFiles\<close>.
\<close>

fun upload_loop :: "pdf_parser \<Rightarrow> part list \<Rightarrow> string option \<Rightarrow> js_object \<times> string list
    \<Rightarrow> js_object \<times> (string + string list)" where
  "upload_loop PDFParser [] thrown (ctxs, uploadedFiles) =
     (case thrown of
        None \<Rightarrow> (ctxs, Inr uploadedFiles)
      | Some e \<Rightarrow> (ctxs, Inl e))"
| "upload_loop PDFParser (f # fs) thrown (ctxs, uploadedFiles) =
     (case toBuffer f of
        Inl e \<Rightarrow> (ctxs, Inl e)
      | Inr buffer \<Rightarrow>
          (case PDFParser buffer of
             Inr text \<Rightarrow>
               upload_loop PDFParser fs thrown
                 (assign (filename f) text ctxs, uploadedFiles @ [filename f])
           | Inl err \<Rightarrow> upload_loop PDFParser fs thrown (ctxs, uploadedFiles)))"

definition build_prompt :: "js_object \<Rightarrow> string" where
  "build_prompt ctxs =
     ''You are an assistant that answers questions based on the following PDF contents: ''
     @ join '' '' (Object_values ctxs)"

text \<open>
  The upload handler. When the loop ends with an error the handler throws it: the
  lines after the loop are not reached, so the prompt and the transcript stay.
\<close>

definition upload :: "pdf_parser \<Rightarrow> part list \<Rightarrow> string option \<Rightarrow> multi_state
    \<Rightarrow> response \<times> multi_state" where
  "upload PDFParser files thrown s =
     (case upload_loop PDFParser files thrown (pdfContexts s, []) of
        (ctxs, Inr uploadedFiles) \<Rightarrow>
          (Message True
             (''PDFs uploaded and processed successfully: '' @ join '', '' uploadedFiles),
           s\<lparr>pdfContexts := ctxs, systemPrompt := build_prompt ctxs,
             conversationHistory := []\<rparr>)
      | (ctxs, Inl e) \<Rightarrow> (Threw e, s\<lparr>pdfContexts := ctxs\<rparr>))"

text \<open>
  The ask handler returns the response, the new state and the invocations of
  \<^verbatim>\<open>callClaudeAPI\<close> it made.
\<close>

definition ask :: "http_post \<Rightarrow> jsval \<Rightarrow> multi_state
    \<Rightarrow> response \<times> multi_state \<times> invocation list" where
  "ask post question s =
     (if \<not> truthy question then (Message False ''No question provided.'', s, [])
      else if length (Object_keys (pdfContexts s)) = 0
        then (Message False ''Please upload at least one PDF first.'', s, [])
      else
        let history = conversationHistory s @ [\<lparr>role = ''user'', content = question\<rparr>]
        in case callClaudeAPI post history (systemPrompt s) of
             Inr answer \<Rightarrow>
               (Answer answer,
                s\<lparr>conversationHistory :=
                    history @ [\<lparr>role = ''assistant'', content = answer\<rparr>]\<rparr>,
                [(history, systemPrompt s)])
           | Inl msg \<Rightarrow>
               (Message False msg, s\<lparr>conversationHistory := history\<rparr>,
                [(history, systemPrompt s)]))"

subsection \<open>\<^verbatim>\<open>src/unnamed/part_000\<close>: one document\<close>

definition prompt_single :: "string \<Rightarrow> string" where
  "prompt_single text =
     ''You are an assistant that answers questions based on the following PDF content: ''
     @ text"

text \<open>
  The upload handler. \<open>read\<close> is the outcome of the two lines before the \<^verbatim>\<open>try\<close> block,
  \<^verbatim>\<open>await request.file()\<close> and \<^verbatim>\<open>await data.toBuffer()\<close>: \<open>Inr\<close> the buffer, or \<open>Inl\<close> the
  message of the error thrown there, with which the handler throws.
\<close>

definition upload_single :: "pdf_parser \<Rightarrow> string + buffer \<Rightarrow> single_state
    \<Rightarrow> response \<times> single_state" where
  "upload_single PDFParser read s =
     (case read of
        Inl e \<Rightarrow> (Threw e, s)
      | Inr buffer \<Rightarrow>
          (case PDFParser buffer of
             Inr text \<Rightarrow>
               (Message True ''PDF uploaded and processed successfully.'',
                s\<lparr>pdfContext := text, systemPrompt := prompt_single text,
                  conversationHistory := []\<rparr>)
           | Inl err \<Rightarrow> (Message False (''Error processing PDF: '' @ err), s)))"

definition ask_single :: "http_post \<Rightarrow> jsval \<Rightarrow> single_state
    \<Rightarrow> response \<times> single_state \<times> invocation list" where
  "ask_single post question s =
     (if \<not> truthy question then (Message False ''No question provided.'', s, [])
      else if pdfContext s = []
        then (Message False ''Please upload a PDF first.'', s, [])
      else
        let history = conversationHistory s @ [\<lparr>role = ''user'', content = question\<rparr>]
        in case callClaudeAPI post history (systemPrompt s) of
             Inr answer \<Rightarrow>
               (Answer answer,
                s\<lparr>conversationHistory :=
                    history @ [\<lparr>role = ''assistant'', content = answer\<rparr>]\<rparr>,
                [(history, systemPrompt s)])
           | Inl msg \<Rightarrow>
               (Message False msg, s\<lparr>conversationHistory := history\<rparr>,
                [(history, systemPrompt s)]))"

subsection \<open>Sequences of requests\<close>

text \<open>
  A request carries the behaviour of the library it reaches: the parser for an
  upload, the HTTP call for a question. \<open>serve\<close> handles a list of requests in order
  and gives the state at the end.
\<close>

datatype request = Upload pdf_parser "part list" "string option" | Ask http_post jsval

fun handle :: "request \<Rightarrow> multi_state \<Rightarrow> multi_state" where
  "handle (Upload PDFParser files thrown) s = snd (upload PDFParser files thrown s)"
| "handle (Ask post question) s = fst (snd (ask post question s))"

definition serve :: "request list \<Rightarrow> multi_state \<Rightarrow> multi_state" where
  "serve rs s = foldl (\<lambda>s r. handle r s) s rs"

datatype request_single =
  Upload_single pdf_parser "string + buffer" | Ask_single http_post jsval

fun handle_single :: "request_single \<Rightarrow> single_state \<Rightarrow> single_state" where
  "handle_single (Upload_single PDFParser read) s = snd (upload_single PDFParser read s)"
| "handle_single (Ask_single post question) s = fst (snd (ask_single post question s))"

definition serve_single :: "request_single list \<Rightarrow> single_state \<Rightarrow> single_state" where
  "serve_single rs s = foldl (\<lambda>s r. handle_single r s) s rs"

subsection \<open>Notions used in the statements\<close>

abbreviation user_turn :: "jsval \<Rightarrow> message" where
  "user_turn question \<equiv> \<lparr>role = ''user'', content = question\<rparr>"

abbreviation assistant_turn :: "jsval \<Rightarrow> message" where
  "assistant_turn answer \<equiv> \<lparr>role = ''assistant'', content = answer\<rparr>"

text \<open>
  The error that ends an upload before its last line, if there is one: the first
  read that rejects, or else the error of the iterator. An upload with none is one
  whose files are all read.
\<close>

fun read_error :: "part list \<Rightarrow> string option \<Rightarrow> string option" where
  "read_error [] thrown = thrown"
| "read_error (f # fs) thrown =
     (case toBuffer f of
        Inl e \<Rightarrow> Some e
      | Inr buffer \<Rightarrow> read_error fs thrown)"

text \<open>
  The pairs of a batch whose extraction succeeds, as file name and extracted text,
  in the order of the batch and up to the first read that rejects; and the store
  after assigning a list of such pairs.
\<close>

fun extracted :: "pdf_parser \<Rightarrow> part list \<Rightarrow> (string \<times> string) list" where
  "extracted PDFParser [] = []"
| "extracted PDFParser (f # fs) =
     (case toBuffer f of
        Inl e \<Rightarrow> []
      | Inr buffer \<Rightarrow>
          (case PDFParser buffer of
             Inr text \<Rightarrow> (filename f, text) # extracted PDFParser fs
           | Inl err \<Rightarrow> extracted PDFParser fs))"

definition assign_all :: "(string \<times> string) list \<Rightarrow> js_object \<Rightarrow> js_object" where
  "assign_all kvs obj = foldl (\<lambda>obj kv. assign (fst kv) (snd kv) obj) obj kvs"

text \<open>
  A sequence of upload calls, each with the parser behaviour it meets, its files and
  the error of its iterator, as requests; whether the files of all the calls are
  read; and the pairs extracted by all the calls of such a sequence, in order.
\<close>

type_synonym upload_call = "pdf_parser \<times> part list \<times> string option"

definition upload_requests :: "upload_call list \<Rightarrow> request list" where
  "upload_requests calls =
     map (\<lambda>call. Upload (fst call) (fst (snd call)) (snd (snd call))) calls"

definition all_read :: "upload_call list \<Rightarrow> bool" where
  "all_read calls = list_all (\<lambda>call. read_error (fst (snd call)) (snd (snd call)) = None) calls"

definition all_extracted :: "upload_call list \<Rightarrow> (string \<times> string) list" where
  "all_extracted calls = concat (map (\<lambda>call. extracted (fst call) (fst (snd call))) calls)"

text \<open>
  The same for the one-document variant, for upload calls whose file is read, each
  with its parser behaviour and its buffer: the texts of the calls whose extraction
  succeeds, and the calls as requests.
\<close>

fun extracted_single :: "(pdf_parser \<times> buffer) list \<Rightarrow> string list" where
  "extracted_single [] = []"
| "extracted_single ((PDFParser, buf) # us) =
     (case PDFParser buf of
        Inr text \<Rightarrow> text # extracted_single us
      | Inl err \<Rightarrow> extracted_single us)"

definition upload_requests_single :: "(pdf_parser \<times> buffer) list \<Rightarrow> request_single list" where
  "upload_requests_single calls =
     map (\<lambda>call. Upload_single (fst call) (Inr (snd call))) calls"

text \<open>
  The shape of a transcript: it does not start with anything but a user turn, and
  an assistant turn comes only directly after a user turn. \<open>after_user\<close> tells whether
  the turn before the list is a user turn.
\<close>

fun assistant_after_user :: "bool \<Rightarrow> message list \<Rightarrow> bool" where
  "assistant_after_user after_user [] = True"
| "assistant_after_user after_user (m # ms) =
     ((role m = ''assistant'' \<longrightarrow> after_user) \<and> assistant_after_user (role m = ''user'') ms)"

fun starts_with_user :: "message list \<Rightarrow> bool" where
  "starts_with_user [] = True"
| "starts_with_user (m # ms) = (role m = ''user'')"

definition transcript_ok :: "message list \<Rightarrow> bool" where
  "transcript_ok h = (starts_with_user h \<and> assistant_after_user False h)"

text \<open>
  \<^verbatim>\<open>String.prototype.trim\<close>, which the page applies to the question before it sends it,
  on the ASCII white space (tab, line feed, vertical tab, form feed, carriage return,
  space).
\<close>

definition is_space :: "char \<Rightarrow> bool" where
  "is_space c = ((of_char c :: nat) \<in> {9, 10, 11, 12, 13, 32})"

definition trim :: "string \<Rightarrow> string" where
  "trim s = rev (dropWhile is_space (rev (dropWhile is_space s)))"

subsection \<open>Sample collaborators and states\<close>

text \<open>
  Behaviours of the two libraries, files of an upload (\<open>scan_pdf\<close> is read but does
  not parse under \<open>header_parser\<close>; the read of \<open>too_large\<close> rejects) and states after
  one successful upload, without and with an answered question, for the concrete
  runs below.
\<close>

definition extracts :: "string \<Rightarrow> pdf_parser" where
  "extracts text buf = Inr text"

definition unreadable :: pdf_parser where
  "unreadable buf = Inl ''Invalid PDF structure''"

definition header_parser :: pdf_parser where
  "header_parser buf =
     (if take 4 buf = [0x25, 0x50, 0x44, 0x46] then Inr ''Revenue was $5M in 2023.''
      else Inl ''Invalid PDF structure'')"

definition pdf_header :: buffer where
  "pdf_header = [0x25, 0x50, 0x44, 0x46]"

definition report_pdf :: part where
  "report_pdf = \<lparr>filename = ''report.pdf'', toBuffer = Inr [0x25, 0x50, 0x44, 0x46]\<rparr>"

definition copy_pdf :: part where
  "copy_pdf = \<lparr>filename = ''copy.pdf'', toBuffer = Inr [0x25, 0x50, 0x44, 0x46]\<rparr>"

definition costs_pdf :: part where
  "costs_pdf = \<lparr>filename = ''costs.pdf'', toBuffer = Inr [0x25, 0x50, 0x44, 0x46]\<rparr>"

definition scan_pdf :: part where
  "scan_pdf = \<lparr>filename = ''scan.pdf'', toBuffer = Inr []\<rparr>"

definition too_large :: part where
  "too_large = \<lparr>filename = ''atlas.pdf'', toBuffer = Inl ''request file too large''\<rparr>"

definition provider_down :: http_post where
  "provider_down messages prompt = Inl ''Network Error''"

definition provider_says :: "jsval \<Rightarrow> http_post" where
  "provider_says answer messages prompt = Inr answer"

definition revenue_state :: multi_state where
  "revenue_state =
     \<lparr>systemPrompt = build_prompt [(''report.pdf'', ''Revenue was $5M in 2023.'')],
      conversationHistory = [],
      pdfContexts = [(''report.pdf'', ''Revenue was $5M in 2023.'')]\<rparr>"

definition revenue_single :: single_state where
  "revenue_single =
     \<lparr>systemPrompt = prompt_single ''Revenue was $5M in 2023.'',
      conversationHistory = [],
      pdfContext = ''Revenue was $5M in 2023.''\<rparr>"

definition answered_state :: multi_state where
  "answered_state =
     revenue_state\<lparr>conversationHistory :=
       [user_turn (JStr ''Revenue?''), assistant_turn (JStr ''$5M'')]\<rparr>"

definition answered_single :: single_state where
  "answered_single =
     revenue_single\<lparr>conversationHistory :=
       [user_turn (JStr ''Revenue?''), assistant_turn (JStr ''$5M'')]\<rparr>"

section \<open>Auxiliary facts\<close>

lemma length_own_properties: "length (own_properties obj) = length obj"
  unfolding own_properties_def
  by (simp add: sum_length_filter_compl)

lemma Object_keys_empty: "(Object_keys obj = []) = (obj = [])"
  using length_own_properties [of obj] by (auto simp: Object_keys_def)

lemma ask_fails:
  "truthy question \<Longrightarrow> pdfContexts s \<noteq> []
   \<Longrightarrow> post (conversationHistory s @ [user_turn question]) (systemPrompt s) = Inl detail
   \<Longrightarrow> ask post question s =
         (Message False (''Failed to get response from Claude API: '' @ detail),
          s\<lparr>conversationHistory := conversationHistory s @ [user_turn question]\<rparr>,
          [(conversationHistory s @ [user_turn question], systemPrompt s)])"
  by (simp add: ask_def callClaudeAPI_def Object_keys_empty Let_def)

lemma ask_answers:
  "truthy question \<Longrightarrow> pdfContexts s \<noteq> []
   \<Longrightarrow> post (conversationHistory s @ [user_turn question]) (systemPrompt s) = Inr answer
   \<Longrightarrow> ask post question s =
         (Answer answer,
          s\<lparr>conversationHistory :=
              conversationHistory s @ [user_turn question, assistant_turn answer]\<rparr>,
          [(conversationHistory s @ [user_turn question], systemPrompt s)])"
  by (simp add: ask_def callClaudeAPI_def Object_keys_empty Let_def)

lemma ask_single_fails:
  "truthy question \<Longrightarrow> pdfContext t \<noteq> []
   \<Longrightarrow> post (conversationHistory t @ [user_turn question]) (systemPrompt t) = Inl detail
   \<Longrightarrow> ask_single post question t =
         (Message False (''Failed to get response from Claude API: '' @ detail),
          t\<lparr>conversationHistory := conversationHistory t @ [user_turn question]\<rparr>,
          [(conversationHistory t @ [user_turn question], systemPrompt t)])"
  by (simp add: ask_single_def callClaudeAPI_def Let_def)

lemma ask_single_answers:
  "truthy question \<Longrightarrow> pdfContext t \<noteq> []
   \<Longrightarrow> post (conversationHistory t @ [user_turn question]) (systemPrompt t) = Inr answer
   \<Longrightarrow> ask_single post question t =
         (Answer answer,
          t\<lparr>conversationHistory :=
              conversationHistory t @ [user_turn question, assistant_turn answer]\<rparr>,
          [(conversationHistory t @ [user_turn question], systemPrompt t)])"
  by (simp add: ask_single_def callClaudeAPI_def Let_def)

lemma upload_loop_extracted:
  "upload_loop PDFParser files thrown (ctxs, uploadedFiles) =
     (assign_all (extracted PDFParser files) ctxs,
      case read_error files thrown of
        None \<Rightarrow> Inr (uploadedFiles @ map fst (extracted PDFParser files))
      | Some e \<Rightarrow> Inl e)"
  by (induction files arbitrary: ctxs uploadedFiles)
     (simp_all add: assign_all_def split: sum.split option.split)

lemma upload_cases:
  "upload PDFParser files thrown s =
     (case read_error files thrown of
        None \<Rightarrow>
          (Message True
             (''PDFs uploaded and processed successfully: ''
              @ join '', '' (map fst (extracted PDFParser files))),
           s\<lparr>pdfContexts := assign_all (extracted PDFParser files) (pdfContexts s),
             systemPrompt :=
               build_prompt (assign_all (extracted PDFParser files) (pdfContexts s)),
             conversationHistory := []\<rparr>)
      | Some e \<Rightarrow>
          (Threw e,
           s\<lparr>pdfContexts := assign_all (extracted PDFParser files) (pdfContexts s)\<rparr>))"
  by (simp add: upload_def upload_loop_extracted split: option.split)

lemma upload_extracted:
  "read_error files thrown = None
   \<Longrightarrow> upload PDFParser files thrown s =
     (Message True
        (''PDFs uploaded and processed successfully: ''
         @ join '', '' (map fst (extracted PDFParser files))),
      s\<lparr>pdfContexts := assign_all (extracted PDFParser files) (pdfContexts s),
        systemPrompt := build_prompt (assign_all (extracted PDFParser files) (pdfContexts s)),
        conversationHistory := []\<rparr>)"
  by (simp add: upload_cases)

lemma upload_aborted:
  "read_error files thrown = Some e
   \<Longrightarrow> upload PDFParser files thrown s =
     (Threw e, s\<lparr>pdfContexts := assign_all (extracted PDFParser files) (pdfContexts s)\<rparr>)"
  by (simp add: upload_cases)

lemma upload_store:
  "pdfContexts (snd (upload PDFParser files thrown s)) =
     assign_all (extracted PDFParser files) (pdfContexts s)"
  by (simp add: upload_cases split: option.split)

lemma extracted_all_fail:
  "\<forall>f\<in>set files. \<exists>buffer. toBuffer f = Inr buffer \<and> isl (PDFParser buffer)
   \<Longrightarrow> extracted PDFParser files = []"
  by (induction files) (auto split: sum.split)

lemma extracted_skip:
  "toBuffer f = Inr buffer \<Longrightarrow> isl (PDFParser buffer)
   \<Longrightarrow> extracted PDFParser (before @ f # after) = extracted PDFParser (before @ after)"
  by (induction before) (auto split: sum.split)

lemma read_error_skip:
  "toBuffer f = Inr buffer
   \<Longrightarrow> read_error (before @ f # after) thrown = read_error (before @ after) thrown"
  by (induction before) (auto split: sum.split)

lemma upload_single_cases:
  "upload_single PDFParser (Inr buf) t =
     (case PDFParser buf of
        Inr text \<Rightarrow>
          (Message True ''PDF uploaded and processed successfully.'',
           t\<lparr>pdfContext := text, systemPrompt := prompt_single text,
             conversationHistory := []\<rparr>)
      | Inl err \<Rightarrow> (Message False (''Error processing PDF: '' @ err), t))"
  by (simp add: upload_single_def prompt_single_def split: sum.split)

lemma assistant_after_user_append:
  "assistant_after_user b (h @ k) =
     (assistant_after_user b h
      \<and> assistant_after_user (if h = [] then b else role (last h) = ''user'') k)"
  by (induction h arbitrary: b) auto

lemma starts_with_user_append:
  "starts_with_user (h @ k) = (if h = [] then starts_with_user k else starts_with_user h)"
  by (cases h) simp_all

lemma transcript_ok_user:
  "transcript_ok h \<Longrightarrow> transcript_ok (h @ [user_turn question])"
  by (simp add: transcript_ok_def assistant_after_user_append starts_with_user_append)

lemma transcript_ok_user_assistant:
  "transcript_ok h \<Longrightarrow> transcript_ok (h @ [user_turn question, assistant_turn answer])"
  by (simp add: transcript_ok_def assistant_after_user_append starts_with_user_append)

lemma ask_transcript_ok:
  "transcript_ok (conversationHistory s)
   \<Longrightarrow> transcript_ok (conversationHistory (fst (snd (ask post question s))))"
  by (simp add: ask_def Let_def transcript_ok_user transcript_ok_user_assistant
      split: sum.split)

lemma ask_single_transcript_ok:
  "transcript_ok (conversationHistory t)
   \<Longrightarrow> transcript_ok (conversationHistory (fst (snd (ask_single post question t))))"
  by (simp add: ask_single_def Let_def transcript_ok_user transcript_ok_user_assistant
      split: sum.split)

lemma handle_transcript_ok:
  "transcript_ok (conversationHistory s) \<Longrightarrow> transcript_ok (conversationHistory (handle r s))"
proof (cases r)
  case (Upload PDFParser files thrown)
  assume "transcript_ok (conversationHistory s)"
  with Upload show ?thesis
    by (simp add: upload_cases transcript_ok_def split: option.split)
next
  case (Ask post question)
  assume "transcript_ok (conversationHistory s)"
  with Ask show ?thesis by (simp add: ask_transcript_ok)
qed

lemma handle_single_transcript_ok:
  "transcript_ok (conversationHistory t)
   \<Longrightarrow> transcript_ok (conversationHistory (handle_single r t))"
proof (cases r)
  case (Upload_single PDFParser read)
  assume "transcript_ok (conversationHistory t)"
  with Upload_single show ?thesis
    by (simp add: upload_single_def transcript_ok_def split: sum.split)
next
  case (Ask_single post question)
  assume "transcript_ok (conversationHistory t)"
  with Ask_single show ?thesis by (simp add: ask_single_transcript_ok)
qed

lemma serve_transcript_ok:
  "transcript_ok (conversationHistory s)
   \<Longrightarrow> transcript_ok (conversationHistory (serve rs s))"
proof (induction rs rule: rev_induct)
  case Nil
  then show ?case by (simp add: serve_def)
next
  case (snoc r rs)
  then have "transcript_ok (conversationHistory (handle r (serve rs s)))"
    by (simp add: handle_transcript_ok)
  then show ?case by (simp add: serve_def)
qed

lemma serve_single_transcript_ok:
  "transcript_ok (conversationHistory t)
   \<Longrightarrow> transcript_ok (conversationHistory (serve_single rs t))"
proof (induction rs rule: rev_induct)
  case Nil
  then show ?case by (simp add: serve_single_def)
next
  case (snoc r rs)
  then have "transcript_ok (conversationHistory (handle_single r (serve_single rs t)))"
    by (simp add: handle_single_transcript_ok)
  then show ?case by (simp add: serve_single_def)
qed

lemma assign_all_append:
  "assign_all (xs @ ys) obj = assign_all ys (assign_all xs obj)"
  by (simp add: assign_all_def)

lemma keys_put: "fst ` set (put k v obj) = insert k (fst ` set obj)"
  by (induction obj) auto

lemma keys_assign:
  "fst ` set (assign k v obj) = fst ` set obj \<union> ({k} - {''__proto__''})"
  by (simp add: assign_def keys_put)

lemma keys_assign_all:
  "fst ` set (assign_all kvs obj) = fst ` set obj \<union> (fst ` set kvs - {''__proto__''})"
proof (induction kvs arbitrary: obj)
  case Nil
  then show ?case by (simp add: assign_all_def)
next
  case (Cons kv kvs)
  have "assign_all (kv # kvs) obj = assign_all kvs (assign (fst kv) (snd kv) obj)"
    by (simp add: assign_all_def)
  with Cons show ?case by (auto simp: keys_assign)
qed

lemma serve_snoc: "serve (rs @ [r]) s = handle r (serve rs s)"
  by (simp add: serve_def)

lemma serve_single_snoc: "serve_single (rs @ [r]) t = handle_single r (serve_single rs t)"
  by (simp add: serve_single_def)

lemma serve_uploads_store:
  "pdfContexts (serve (upload_requests calls) s) = assign_all (all_extracted calls) (pdfContexts s)"
proof (induction calls rule: rev_induct)
  case Nil
  then show ?case
    by (simp add: upload_requests_def all_extracted_def serve_def assign_all_def)
next
  case (snoc call calls)
  have "upload_requests (calls @ [call]) =
      upload_requests calls @ [Upload (fst call) (fst (snd call)) (snd (snd call))]"
    by (simp add: upload_requests_def)
  moreover have "all_extracted (calls @ [call]) =
      all_extracted calls @ extracted (fst call) (fst (snd call))"
    by (simp add: all_extracted_def)
  ultimately show ?case
    using snoc by (simp add: serve_snoc upload_store assign_all_append)
qed

lemma serve_uploads_prompt:
  "all_read calls
   \<Longrightarrow> systemPrompt (serve (upload_requests calls) s) =
     (if calls = [] then systemPrompt s
      else build_prompt (pdfContexts (serve (upload_requests calls) s)))"
proof (cases calls rule: rev_cases)
  case Nil
  then show ?thesis by (simp add: upload_requests_def serve_def)
next
  case (snoc calls' call)
  assume "all_read calls"
  with snoc have "read_error (fst (snd call)) (snd (snd call)) = None"
    by (simp add: all_read_def)
  moreover from snoc have "upload_requests calls =
      upload_requests calls' @ [Upload (fst call) (fst (snd call)) (snd (snd call))]"
    by (simp add: upload_requests_def)
  ultimately show ?thesis
    using snoc by (simp add: serve_snoc upload_extracted)
qed

lemma extracted_single_cons:
  "extracted_single (call # calls) =
     (case fst call (snd call) of Inr text \<Rightarrow> [text] | Inl err \<Rightarrow> [])
     @ extracted_single calls"
  by (cases call) (simp split: sum.split)

lemma extracted_single_snoc:
  "extracted_single (calls @ [call]) =
     extracted_single calls
     @ (case fst call (snd call) of Inr text \<Rightarrow> [text] | Inl err \<Rightarrow> [])"
  by (induction calls) (simp_all add: extracted_single_cons del: extracted_single.simps(2))

lemma serve_single_uploads:
  "serve_single (upload_requests_single calls) single_init =
     (case extracted_single calls of
        [] \<Rightarrow> single_init
      | text # texts \<Rightarrow>
          \<lparr>systemPrompt = prompt_single (last (text # texts)), conversationHistory = [],
           pdfContext = last (text # texts)\<rparr>)"
proof (induction calls rule: rev_induct)
  case Nil
  then show ?case by (simp add: upload_requests_single_def serve_single_def)
next
  case (snoc call calls)
  have "upload_requests_single (calls @ [call]) =
      upload_requests_single calls @ [Upload_single (fst call) (Inr (snd call))]"
    by (simp add: upload_requests_single_def)
  with snoc show ?case
    by (simp add: serve_single_snoc upload_single_cases extracted_single_snoc single_init_def
        split: sum.split list.split)
qed

lemma read_error_none:
  "\<forall>f\<in>set files. \<exists>buffer. toBuffer f = Inr buffer \<Longrightarrow> read_error files thrown = thrown"
  by (induction files) auto

text \<open>
  An upload aborted by a read: the file before it is stored, the handler throws, and
  the prompt and the transcript are the old ones.
\<close>

lemma upload_abort_example:
  "upload (extracts ''Costs were $2M.'') [costs_pdf, too_large, copy_pdf] None answered_state =
     (Threw ''request file too large'',
      answered_state\<lparr>pdfContexts :=
        [(''report.pdf'', ''Revenue was $5M in 2023.''), (''costs.pdf'', ''Costs were $2M.'')]\<rparr>)"
  by (simp add: upload_cases costs_pdf_def too_large_def copy_pdf_def extracts_def
      assign_all_def assign_def answered_state_def revenue_state_def)

lemma Object_values_order_example:
  "Object_values (assign_all [(''b.pdf'', ''B''), (''10'', ''ten''), (''a.pdf'', ''A''), (''7'', ''seven''), (''__proto__'', ''P''), (''b.pdf'', ''B2''), (''07'', ''o7'')] [])
   = [''seven'', ''ten'', ''B2'', ''A'', ''o7'']"
  by (simp add: Object_values_def own_properties_def assign_all_def assign_def is_array_index_def is_digit_def decimal_def)

section \<open>A provider failure leaves the question in the transcript\<close>

text \<open>
  C1: when the question and the store pass the checks and the provider call fails,
  ask returns a failure with the error's message, and the transcript is the old one
  followed by the user turn alone. A later ask whose provider call succeeds sends the
  provider the transcript with that unanswered user turn still in it, followed by the
  new user turn. This holds in both variants.
\<close>

theorem ask_provider_failure:
  "(truthy question \<and> pdfContexts s \<noteq> []
      \<and> post (conversationHistory s @ [user_turn question]) (systemPrompt s) = Inl detail
    \<longrightarrow> ask post question s =
          (Message False (''Failed to get response from Claude API: '' @ detail),
           s\<lparr>conversationHistory := conversationHistory s @ [user_turn question]\<rparr>,
           [(conversationHistory s @ [user_turn question], systemPrompt s)])
        \<and> (truthy question'
             \<and> post' (conversationHistory s @ [user_turn question, user_turn question'])
                  (systemPrompt s) = Inr answer
             \<longrightarrow> ask post' question' (fst (snd (ask post question s))) =
                   (Answer answer,
                    s\<lparr>conversationHistory := conversationHistory s
                        @ [user_turn question, user_turn question', assistant_turn answer]\<rparr>,
                    [(conversationHistory s @ [user_turn question, user_turn question'],
                      systemPrompt s)])))
   \<and> (truthy question \<and> pdfContext t \<noteq> []
      \<and> post (conversationHistory t @ [user_turn question]) (systemPrompt t) = Inl detail
    \<longrightarrow> ask_single post question t =
          (Message False (''Failed to get response from Claude API: '' @ detail),
           t\<lparr>conversationHistory := conversationHistory t @ [user_turn question]\<rparr>,
           [(conversationHistory t @ [user_turn question], systemPrompt t)])
        \<and> (truthy question'
             \<and> post' (conversationHistory t @ [user_turn question, user_turn question'])
                  (systemPrompt t) = Inr answer
             \<longrightarrow> ask_single post' question' (fst (snd (ask_single post question t))) =
                   (Answer answer,
                    t\<lparr>conversationHistory := conversationHistory t
                        @ [user_turn question, user_turn question', assistant_turn answer]\<rparr>,
                    [(conversationHistory t @ [user_turn question, user_turn question'],
                      systemPrompt t)])))"
  by (simp add: ask_fails ask_answers ask_single_fails ask_single_answers)

theorem ask_provider_failure_witness:
  "ask provider_down (JStr ''Revenue?'') revenue_state =
     (Message False ''Failed to get response from Claude API: Network Error'',
      revenue_state\<lparr>conversationHistory := [user_turn (JStr ''Revenue?'')]\<rparr>,
      [([user_turn (JStr ''Revenue?'')], systemPrompt revenue_state)])
   \<and> ask (provider_says (JStr ''$5M'')) (JStr ''Again?'')
       (fst (snd (ask provider_down (JStr ''Revenue?'') revenue_state))) =
     (Answer (JStr ''$5M''),
      revenue_state\<lparr>conversationHistory :=
        [user_turn (JStr ''Revenue?''), user_turn (JStr ''Again?''),
         assistant_turn (JStr ''$5M'')]\<rparr>,
      [([user_turn (JStr ''Revenue?''), user_turn (JStr ''Again?'')],
        systemPrompt revenue_state)])
   \<and> ask_single provider_down (JStr ''Revenue?'') revenue_single =
     (Message False ''Failed to get response from Claude API: Network Error'',
      revenue_single\<lparr>conversationHistory := [user_turn (JStr ''Revenue?'')]\<rparr>,
      [([user_turn (JStr ''Revenue?'')], systemPrompt revenue_single)])
   \<and> ask_single (provider_says (JStr ''$5M'')) (JStr ''Again?'')
       (fst (snd (ask_single provider_down (JStr ''Revenue?'') revenue_single))) =
     (Answer (JStr ''$5M''),
      revenue_single\<lparr>conversationHistory :=
        [user_turn (JStr ''Revenue?''), user_turn (JStr ''Again?''),
         assistant_turn (JStr ''$5M'')]\<rparr>,
      [([user_turn (JStr ''Revenue?''), user_turn (JStr ''Again?'')],
        systemPrompt revenue_single)])"
proof -
  have store: "pdfContexts revenue_state \<noteq> []" "pdfContext revenue_single \<noteq> []"
    and empty: "conversationHistory revenue_state = []"
      "conversationHistory revenue_single = []"
    by (simp_all add: revenue_state_def revenue_single_def)
  note fact = ask_provider_failure [where question = "JStr ''Revenue?''"
      and post = provider_down and detail = "''Network Error''"
      and s = revenue_state and t = revenue_single
      and post' = "provider_says (JStr ''$5M'')" and question' = "JStr ''Again?''"
      and answer = "JStr ''$5M''"]
  from fact store empty show ?thesis
    by (auto simp: provider_down_def provider_says_def)
qed

section \<open>When an upload clears the transcript\<close>

text \<open>
  C2, as stated, fails in the one-document variant: there the reset is inside the
  \<^verbatim>\<open>try\<close> block, after the parse, so an upload whose extraction fails returns from
  the \<^verbatim>\<open>catch\<close> block with the transcript as it was.
\<close>

theorem upload_single_failure_keeps_history:
  "conversationHistory (snd (upload_single unreadable (Inr []) answered_single))
   = [user_turn (JStr ''Revenue?''), assistant_turn (JStr ''$5M'')]
   \<and> conversationHistory (snd (upload_single unreadable (Inr []) answered_single)) \<noteq> []"
  by (simp add: upload_single_def unreadable_def answered_single_def)

text \<open>
  C2, amended: an upload of the several-documents variant whose files are all read
  (neither the iterator nor a read of a buffer throws) leaves the transcript empty,
  also when every file of the batch fails extraction and the store is the one it
  was; an upload of the one-document variant whose file is read leaves the
  transcript empty when its extraction succeeds, and as it was when its extraction
  fails.
\<close>

theorem upload_resets_history:
  "(read_error files thrown = None
      \<longrightarrow> conversationHistory (snd (upload PDFParser files thrown s)) = [])
   \<and> (thrown = None
      \<and> (\<forall>f\<in>set files. \<exists>buffer. toBuffer f = Inr buffer \<and> isl (PDFParser buffer))
      \<longrightarrow> pdfContexts (snd (upload PDFParser files thrown s)) = pdfContexts s
        \<and> conversationHistory (snd (upload PDFParser files thrown s)) = [])
   \<and> conversationHistory (snd (upload_single PDFParser (Inr buf) t)) =
       (case PDFParser buf of Inr text \<Rightarrow> [] | Inl err \<Rightarrow> conversationHistory t)"
proof -
  have "read_error files None = None"
    if "\<forall>f\<in>set files. \<exists>buffer. toBuffer f = Inr buffer \<and> isl (PDFParser buffer)"
    using that by (intro read_error_none) blast
  then show ?thesis
    by (auto simp: upload_extracted extracted_all_fail assign_all_def upload_single_cases
        split: sum.split)
qed

theorem upload_resets_history_witness:
  "read_error [scan_pdf] None = None
   \<and> toBuffer scan_pdf = Inr [] \<and> isl (unreadable [])
   \<and> conversationHistory answered_state \<noteq> []
   \<and> conversationHistory (snd (upload unreadable [scan_pdf] None answered_state)) = []
   \<and> pdfContexts (snd (upload unreadable [scan_pdf] None answered_state)) =
       [(''report.pdf'', ''Revenue was $5M in 2023.'')]
   \<and> conversationHistory
       (snd (upload_single (extracts ''Costs were $2M.'') (Inr pdf_header) answered_single)) = []"
proof -
  note several = upload_resets_history [where PDFParser = unreadable
      and files = "[scan_pdf]" and thrown = None and s = answered_state]
  note one = upload_resets_history [where PDFParser = "extracts ''Costs were $2M.''"
      and buf = pdf_header and t = answered_single]
  have read: "read_error [scan_pdf] None = None" "toBuffer scan_pdf = Inr []"
    and failed: "isl (unreadable [])"
    and asked: "conversationHistory answered_state \<noteq> []"
    and store: "pdfContexts answered_state = [(''report.pdf'', ''Revenue was $5M in 2023.'')]"
    by (simp_all add: scan_pdf_def unreadable_def answered_state_def revenue_state_def)
  from several read failed store
  have "conversationHistory (snd (upload unreadable [scan_pdf] None answered_state)) = []"
    and "pdfContexts (snd (upload unreadable [scan_pdf] None answered_state)) =
       [(''report.pdf'', ''Revenue was $5M in 2023.'')]"
    by simp_all
  moreover from one
  have "conversationHistory
       (snd (upload_single (extracts ''Costs were $2M.'') (Inr pdf_header) answered_single)) = []"
    by (simp add: extracts_def)
  ultimately show ?thesis
    using read failed asked by blast
qed

section \<open>The check of the question\<close>

text \<open>
  C3, as stated, fails: the handlers test \<^verbatim>\<open>!question\<close> and do not trim. A question of
  two spaces is empty after trimming, yet it is recorded in the transcript and sent
  to the provider, in both variants.
\<close>

theorem whitespace_question_is_asked:
  "trim ''  '' = []
   \<and> ask (provider_says (JStr ''Please ask a question.'')) (JStr ''  '') revenue_state =
     (Answer (JStr ''Please ask a question.''),
      revenue_state\<lparr>conversationHistory :=
        [user_turn (JStr ''  ''), assistant_turn (JStr ''Please ask a question.'')]\<rparr>,
      [([user_turn (JStr ''  '')], systemPrompt revenue_state)])
   \<and> ask_single (provider_says (JStr ''Please ask a question.'')) (JStr ''  '') revenue_single =
     (Answer (JStr ''Please ask a question.''),
      revenue_single\<lparr>conversationHistory :=
        [user_turn (JStr ''  ''), assistant_turn (JStr ''Please ask a question.'')]\<rparr>,
      [([user_turn (JStr ''  '')], systemPrompt revenue_single)])"
  by (simp add: trim_def is_space_def ask_def ask_single_def callClaudeAPI_def
      provider_says_def Object_keys_empty revenue_state_def revenue_single_def)

text \<open>
  C3, amended: a question that JavaScript takes for false (the empty string, a missing
  property, null, false, zero) is rejected with the message \<^verbatim>\<open>No question provided.\<close>,
  the state is returned as it was and the provider is not called, in both variants.
\<close>

theorem ask_rejects_falsy_question:
  "\<not> truthy question
   \<longrightarrow> ask post question s = (Message False ''No question provided.'', s, [])
       \<and> ask_single post question t = (Message False ''No question provided.'', t, [])"
  by (simp add: ask_def ask_single_def)

theorem ask_rejects_falsy_question_witness:
  "\<not> truthy (JStr '''')
   \<and> ask (provider_says (JStr ''$5M'')) (JStr '''') revenue_state =
       (Message False ''No question provided.'', revenue_state, [])
   \<and> ask_single (provider_says (JStr ''$5M'')) (JStr '''') revenue_single =
       (Message False ''No question provided.'', revenue_single, [])"
  using ask_rejects_falsy_question [where question = "JStr ''''"
      and post = "provider_says (JStr ''$5M'')" and s = revenue_state and t = revenue_single]
  by simp

section \<open>The system prompt after an upload\<close>

text \<open>
  C4, as stated, fails in the one-document variant: an upload whose extraction fails
  writes nothing, so after such an upload at the start of the process the system
  prompt is still the empty string, not the instruction followed by the stored text.
\<close>

theorem failed_first_upload_leaves_prompt_empty:
  "systemPrompt (snd (upload_single unreadable (Inr []) single_init)) = []
   \<and> pdfContext (snd (upload_single unreadable (Inr []) single_init)) = []
   \<and> systemPrompt (snd (upload_single unreadable (Inr []) single_init)) \<noteq>
       ''You are an assistant that answers questions based on the following PDF content: ''
       @ pdfContext (snd (upload_single unreadable (Inr []) single_init))"
  by (simp add: upload_single_cases unreadable_def single_init_def)

text \<open>
  C4, amended: after an upload of the several-documents variant whose files are all
  read, the system prompt is the fixed instruction followed by the values of the
  store, in the order of \<^verbatim>\<open>Object.values\<close>, joined by one space; after a sequence of such
  uploads from the start of the process it is that function of the store built from
  the extracted documents of all the calls, in order. In the one-document variant,
  for uploads whose file is read, the prompt is the instruction followed by the
  stored text after an upload whose extraction succeeds, and is left as it was by one
  whose extraction fails; after a sequence of such uploads it is empty when none
  succeeded and built from the last extracted text otherwise.
\<close>

theorem prompt_after_upload:
  "(read_error files thrown = None
      \<longrightarrow> systemPrompt (snd (upload PDFParser files thrown s)) =
          ''You are an assistant that answers questions based on the following PDF contents: ''
          @ join '' '' (Object_values (pdfContexts (snd (upload PDFParser files thrown s)))))
   \<and> (all_read calls
      \<longrightarrow> systemPrompt (serve (upload_requests calls) multi_init) =
          (if calls = [] then []
           else build_prompt (assign_all (all_extracted calls) [])))
   \<and> (PDFParser buf = Inr pdf_text
        \<longrightarrow> systemPrompt (snd (upload_single PDFParser (Inr buf) t)) =
            ''You are an assistant that answers questions based on the following PDF content: ''
            @ pdfContext (snd (upload_single PDFParser (Inr buf) t)))
   \<and> (isl (PDFParser buf)
        \<longrightarrow> systemPrompt (snd (upload_single PDFParser (Inr buf) t)) = systemPrompt t)
   \<and> systemPrompt (serve_single (upload_requests_single calls') single_init) =
       (case extracted_single calls' of
          [] \<Rightarrow> []
        | text # texts \<Rightarrow> prompt_single (last (text # texts)))"
proof -
  have multi: "systemPrompt (serve (upload_requests calls) multi_init) =
       (if calls = [] then []
        else build_prompt (assign_all (all_extracted calls) []))"
    if "all_read calls"
    using that
    by (simp add: serve_uploads_prompt [of calls multi_init] serve_uploads_store)
      (simp add: multi_init_def)
  have single: "systemPrompt (serve_single (upload_requests_single calls') single_init) =
       (case extracted_single calls' of
          [] \<Rightarrow> []
        | text # texts \<Rightarrow> prompt_single (last (text # texts)))"
    unfolding serve_single_uploads by (simp add: single_init_def split: list.split)
  show ?thesis
    using multi single
    by (auto simp: upload_extracted build_prompt_def upload_single_cases prompt_single_def
        split: sum.split)
qed

theorem prompt_after_upload_witness:
  "all_read [(header_parser, [report_pdf, scan_pdf], None),
             (extracts ''Costs were $2M.'', [costs_pdf], None)]
   \<and> header_parser pdf_header = Inr ''Revenue was $5M in 2023.''
   \<and> isl (unreadable [])
   \<and> systemPrompt
       (serve (upload_requests
          [(header_parser, [report_pdf, scan_pdf], None),
           (extracts ''Costs were $2M.'', [costs_pdf], None)])
          multi_init) =
     ''You are an assistant that answers questions based on the following PDF contents: Revenue was $5M in 2023. Costs were $2M.''
   \<and> systemPrompt (snd (upload_single header_parser (Inr pdf_header) single_init)) =
     ''You are an assistant that answers questions based on the following PDF content: Revenue was $5M in 2023.''
   \<and> systemPrompt (snd (upload_single unreadable (Inr []) revenue_single)) =
     ''You are an assistant that answers questions based on the following PDF content: Revenue was $5M in 2023.''"
proof -
  note several = prompt_after_upload [where calls =
      "[(header_parser, [report_pdf, scan_pdf], None),
        (extracts ''Costs were $2M.'', [costs_pdf], None)]"]
  note good = prompt_after_upload [where PDFParser = header_parser
      and buf = pdf_header and pdf_text = "''Revenue was $5M in 2023.''"
      and t = single_init]
  note bad = prompt_after_upload [where PDFParser = unreadable and buf = "[]"
      and t = revenue_single]
  have parsed: "header_parser pdf_header = Inr ''Revenue was $5M in 2023.''"
    and failed: "isl (unreadable [])"
    and read: "all_read [(header_parser, [report_pdf, scan_pdf], None),
             (extracts ''Costs were $2M.'', [costs_pdf], None)]"
    by (simp_all add: header_parser_def pdf_header_def unreadable_def all_read_def
        report_pdf_def scan_pdf_def costs_pdf_def)
  have store: "pdfContext (snd (upload_single header_parser (Inr pdf_header) single_init))
      = ''Revenue was $5M in 2023.''"
    by (simp add: upload_single_cases parsed)
  have joined: "build_prompt (assign_all (all_extracted
      [(header_parser, [report_pdf, scan_pdf], None),
       (extracts ''Costs were $2M.'', [costs_pdf], None)]) []) =
     ''You are an assistant that answers questions based on the following PDF contents: Revenue was $5M in 2023. Costs were $2M.''"
    by (simp add: all_extracted_def header_parser_def extracts_def assign_all_def assign_def
        report_pdf_def scan_pdf_def costs_pdf_def
        build_prompt_def Object_values_def own_properties_def is_array_index_def
        is_digit_def)
  from several read joined
  have a: "systemPrompt
       (serve (upload_requests
          [(header_parser, [report_pdf, scan_pdf], None),
           (extracts ''Costs were $2M.'', [costs_pdf], None)])
          multi_init) =
     ''You are an assistant that answers questions based on the following PDF contents: Revenue was $5M in 2023. Costs were $2M.''"
    by simp
  from good parsed store
  have b: "systemPrompt (snd (upload_single header_parser (Inr pdf_header) single_init)) =
     ''You are an assistant that answers questions based on the following PDF content: Revenue was $5M in 2023.''"
    by simp
  from bad failed
  have c: "systemPrompt (snd (upload_single unreadable (Inr []) revenue_single)) =
     ''You are an assistant that answers questions based on the following PDF content: Revenue was $5M in 2023.''"
    by (simp add: revenue_single_def prompt_single_def)
  from read parsed failed a b c show ?thesis by blast
qed

section \<open>A successful ask\<close>

text \<open>
  C5: when the question is not empty, the store is not empty and the provider call
  succeeds, ask appends the user turn with the question and then the assistant turn
  with the value the provider returned, calls the provider once, with the old
  transcript followed by the new user turn and with the system prompt, and returns
  the answer. This holds in both variants.
\<close>

theorem ask_success:
  "(truthy question \<and> pdfContexts s \<noteq> []
      \<and> post (conversationHistory s @ [user_turn question]) (systemPrompt s) = Inr answer
    \<longrightarrow> ask post question s =
          (Answer answer,
           s\<lparr>conversationHistory :=
               conversationHistory s @ [user_turn question, assistant_turn answer]\<rparr>,
           [(conversationHistory s @ [user_turn question], systemPrompt s)]))
   \<and> (truthy question \<and> pdfContext t \<noteq> []
      \<and> post (conversationHistory t @ [user_turn question]) (systemPrompt t) = Inr answer
    \<longrightarrow> ask_single post question t =
          (Answer answer,
           t\<lparr>conversationHistory :=
               conversationHistory t @ [user_turn question, assistant_turn answer]\<rparr>,
           [(conversationHistory t @ [user_turn question], systemPrompt t)]))"
  by (simp add: ask_answers ask_single_answers)

theorem ask_success_witness:
  "truthy (JStr ''What was the revenue?'')
   \<and> pdfContexts revenue_state \<noteq> [] \<and> pdfContext revenue_single \<noteq> []
   \<and> provider_says (JStr ''$5M'') [user_turn (JStr ''What was the revenue?'')]
        (systemPrompt revenue_state) = Inr (JStr ''$5M'')
   \<and> ask (provider_says (JStr ''$5M'')) (JStr ''What was the revenue?'') revenue_state =
       (Answer (JStr ''$5M''),
        revenue_state\<lparr>conversationHistory :=
          [user_turn (JStr ''What was the revenue?''), assistant_turn (JStr ''$5M'')]\<rparr>,
        [([user_turn (JStr ''What was the revenue?'')], systemPrompt revenue_state)])
   \<and> ask_single (provider_says (JStr ''$5M'')) (JStr ''What was the revenue?'')
         revenue_single =
       (Answer (JStr ''$5M''),
        revenue_single\<lparr>conversationHistory :=
          [user_turn (JStr ''What was the revenue?''), assistant_turn (JStr ''$5M'')]\<rparr>,
        [([user_turn (JStr ''What was the revenue?'')], systemPrompt revenue_single)])"
proof -
  have store: "pdfContexts revenue_state \<noteq> []" "pdfContext revenue_single \<noteq> []"
    and empty: "conversationHistory revenue_state = []"
      "conversationHistory revenue_single = []"
    by (simp_all add: revenue_state_def revenue_single_def)
  note fact = ask_success [where question = "JStr ''What was the revenue?''"
      and post = "provider_says (JStr ''$5M'')" and answer = "JStr ''$5M''"
      and s = revenue_state and t = revenue_single]
  from fact store empty show ?thesis
    by (auto simp: provider_says_def)
qed

section \<open>Extraction failures inside a batch\<close>

text \<open>
  C6, as stated, fails in the one-document variant: its handler takes one file, and
  when the extraction of that file fails it reports a failure, not a success.
\<close>

theorem upload_single_reports_failure:
  "fst (upload_single unreadable (Inr []) revenue_single) =
     Message False ''Error processing PDF: Invalid PDF structure''"
  by (simp add: upload_single_cases unreadable_def)

text \<open>
  C6, amended: in the several-documents variant an upload whose files are all read
  reports success, with the file names of the pairs whose extraction succeeded, in
  the order of the batch; the store is the old one with exactly those pairs assigned,
  so a pair whose extraction fails changes nothing and the upload is the one of the
  batch without it; the keys of the store are the old keys and the names reported,
  the name \<^verbatim>\<open>__proto__\<close> apart. The one-document variant, when its file is read, reports
  success when the extraction succeeds and a failure with the parser's message
  otherwise.
\<close>

theorem upload_skips_failures:
  "(read_error files thrown = None
      \<longrightarrow> fst (upload PDFParser files thrown s) =
            Message True (''PDFs uploaded and processed successfully: ''
                          @ join '', '' (map fst (extracted PDFParser files)))
        \<and> pdfContexts (snd (upload PDFParser files thrown s)) =
            assign_all (extracted PDFParser files) (pdfContexts s)
        \<and> fst ` set (pdfContexts (snd (upload PDFParser files thrown s))) =
            fst ` set (pdfContexts s)
            \<union> (fst ` set (extracted PDFParser files) - {''__proto__''}))
   \<and> (read_error (before @ f # after) thrown = None
      \<and> toBuffer f = Inr buffer \<and> isl (PDFParser buffer)
      \<longrightarrow> read_error (before @ after) thrown = None
        \<and> extracted PDFParser (before @ f # after) = extracted PDFParser (before @ after)
        \<and> upload PDFParser (before @ f # after) thrown s =
            upload PDFParser (before @ after) thrown s)
   \<and> fst (upload_single PDFParser (Inr buf) t) =
       (case PDFParser buf of
          Inr pdf_text \<Rightarrow> Message True ''PDF uploaded and processed successfully.''
        | Inl err \<Rightarrow> Message False (''Error processing PDF: '' @ err))"
proof -
  have skip: "read_error (before @ after) thrown = None
        \<and> extracted PDFParser (before @ f # after) = extracted PDFParser (before @ after)
        \<and> upload PDFParser (before @ f # after) thrown s =
            upload PDFParser (before @ after) thrown s"
    if "read_error (before @ f # after) thrown = None" "toBuffer f = Inr buffer"
      "isl (PDFParser buffer)"
    using that by (simp add: upload_cases extracted_skip read_error_skip)
  have one: "fst (upload_single PDFParser (Inr buf) t) =
       (case PDFParser buf of
          Inr pdf_text \<Rightarrow> Message True ''PDF uploaded and processed successfully.''
        | Inl err \<Rightarrow> Message False (''Error processing PDF: '' @ err))"
    by (simp add: upload_single_cases split: sum.split)
  have several: "fst (upload PDFParser files thrown s) =
            Message True (''PDFs uploaded and processed successfully: ''
                          @ join '', '' (map fst (extracted PDFParser files)))
        \<and> pdfContexts (snd (upload PDFParser files thrown s)) =
            assign_all (extracted PDFParser files) (pdfContexts s)
        \<and> fst ` set (pdfContexts (snd (upload PDFParser files thrown s))) =
            fst ` set (pdfContexts s)
            \<union> (fst ` set (extracted PDFParser files) - {''__proto__''})"
    if "read_error files thrown = None"
    using that by (simp add: upload_extracted keys_assign_all)
  from skip one several show ?thesis by blast
qed

theorem upload_skips_failures_witness:
  "read_error [report_pdf, scan_pdf, copy_pdf] None = None
   \<and> toBuffer scan_pdf = Inr [] \<and> isl (header_parser [])
   \<and> upload header_parser [report_pdf, scan_pdf, copy_pdf] None multi_init =
     upload header_parser [report_pdf, copy_pdf] None multi_init
   \<and> fst (upload header_parser [report_pdf, scan_pdf, copy_pdf] None multi_init) =
     Message True ''PDFs uploaded and processed successfully: report.pdf, copy.pdf''
   \<and> pdfContexts (snd (upload header_parser [report_pdf, scan_pdf, copy_pdf] None multi_init)) =
     [(''report.pdf'', ''Revenue was $5M in 2023.''), (''copy.pdf'', ''Revenue was $5M in 2023.'')]
   \<and> fst (upload header_parser [scan_pdf] None multi_init) =
     Message True ''PDFs uploaded and processed successfully: ''"
proof -
  note batch = upload_skips_failures [where PDFParser = header_parser
      and f = scan_pdf and before = "[report_pdf]" and after = "[copy_pdf]"
      and buffer = "[]" and files = "[report_pdf, scan_pdf, copy_pdf]"
      and thrown = None and s = multi_init and buf = "[]" and t = single_init]
  note alone = upload_skips_failures [where PDFParser = header_parser
      and files = "[scan_pdf]" and thrown = None and s = multi_init
      and f = scan_pdf and before = "[]" and after = "[]" and buffer = "[]"
      and buf = "[]" and t = single_init]
  have read: "read_error [report_pdf, scan_pdf, copy_pdf] None = None"
    "read_error [scan_pdf] None = None" "toBuffer scan_pdf = Inr []"
    and failed: "isl (header_parser [])"
    by (simp_all add: header_parser_def report_pdf_def scan_pdf_def copy_pdf_def)
  have store: "pdfContexts multi_init = []"
    by (simp add: multi_init_def)
  have names: "extracted header_parser [report_pdf, scan_pdf, copy_pdf] =
      [(''report.pdf'', ''Revenue was $5M in 2023.''), (''copy.pdf'', ''Revenue was $5M in 2023.'')]"
    "extracted header_parser [scan_pdf] = []"
    by (simp_all add: header_parser_def report_pdf_def scan_pdf_def copy_pdf_def)
  have skipped: "upload header_parser [report_pdf, scan_pdf, copy_pdf] None multi_init =
     upload header_parser [report_pdf, copy_pdf] None multi_init"
    using batch read failed by simp
  have reported: "fst (upload header_parser [report_pdf, scan_pdf, copy_pdf] None multi_init) =
     Message True ''PDFs uploaded and processed successfully: report.pdf, copy.pdf''"
    using batch read unfolding names by simp
  have stored: "pdfContexts (snd (upload header_parser [report_pdf, scan_pdf, copy_pdf] None multi_init)) =
     [(''report.pdf'', ''Revenue was $5M in 2023.''), (''copy.pdf'', ''Revenue was $5M in 2023.'')]"
    using batch read unfolding names store by (simp add: assign_all_def assign_def)
  have none: "fst (upload header_parser [scan_pdf] None multi_init) =
     Message True ''PDFs uploaded and processed successfully: ''"
    using alone read unfolding names by simp
  from read failed skipped reported stored none show ?thesis
    by blast
qed

section \<open>Asking before any document is stored\<close>

text \<open>
  C7: while the store is empty, ask does not call the provider and returns the state
  as it was; a question that is not empty gets the fixed message that asks for an
  upload first, and an empty question gets \<^verbatim>\<open>No question provided.\<close> instead, since
  the question is checked first. This holds in both variants, each with its own
  wording of the message.
\<close>

theorem ask_empty_store:
  "(pdfContexts s = []
    \<longrightarrow> ask post question s =
          (Message False
             (if truthy question then ''Please upload at least one PDF first.''
              else ''No question provided.''), s, []))
   \<and> (pdfContext t = []
    \<longrightarrow> ask_single post question t =
          (Message False
             (if truthy question then ''Please upload a PDF first.''
              else ''No question provided.''), t, []))"
  by (simp add: ask_def ask_single_def Object_keys_empty)

theorem ask_empty_store_witness:
  "pdfContexts multi_init = [] \<and> pdfContext single_init = []
   \<and> ask (provider_says (JStr ''$5M'')) (JStr ''What was the revenue?'') multi_init =
       (Message False ''Please upload at least one PDF first.'', multi_init, [])
   \<and> ask_single (provider_says (JStr ''$5M'')) (JStr ''What was the revenue?'') single_init =
       (Message False ''Please upload a PDF first.'', single_init, [])
   \<and> ask (provider_says (JStr ''$5M'')) (JStr '''') multi_init =
       (Message False ''No question provided.'', multi_init, [])
   \<and> ask_single (provider_says (JStr ''$5M'')) (JStr '''') single_init =
       (Message False ''No question provided.'', single_init, [])"
proof -
  have store: "pdfContexts multi_init = []" "pdfContext single_init = []"
    by (simp_all add: multi_init_def single_init_def)
  note asked = ask_empty_store [where question = "JStr ''What was the revenue?''"
      and post = "provider_says (JStr ''$5M'')" and s = multi_init and t = single_init]
  note silent = ask_empty_store [where question = "JStr ''''"
      and post = "provider_says (JStr ''$5M'')" and s = multi_init and t = single_init]
  from asked silent store show ?thesis by simp
qed

section \<open>A failed extraction in the one-document variant\<close>

text \<open>
  C8: in the one-document variant, an upload whose extraction fails returns a
  failure with the parser's message and the state it was given: the stored text, the
  system prompt and the transcript are all unchanged.
\<close>

theorem upload_single_failure:
  "PDFParser buf = Inl err
   \<longrightarrow> upload_single PDFParser (Inr buf) t =
       (Message False (''Error processing PDF: '' @ err), t)"
  by (simp add: upload_single_def)

theorem upload_single_failure_witness:
  "unreadable [] = Inl ''Invalid PDF structure''
   \<and> upload_single unreadable (Inr []) answered_single =
     (Message False ''Error processing PDF: Invalid PDF structure'', answered_single)"
  using upload_single_failure [where PDFParser = unreadable and buf = "[]"
      and err = "''Invalid PDF structure''" and t = answered_single]
  by (simp add: unreadable_def)

section \<open>What ask leaves alone\<close>

text \<open>
  C9: whatever an ask call returns, the document store and the system prompt are the
  ones it found, in both variants; only the conversation history can differ.
\<close>

theorem ask_frame:
  "pdfContexts (fst (snd (ask post question s))) = pdfContexts s
   \<and> systemPrompt (fst (snd (ask post question s))) = systemPrompt s
   \<and> pdfContext (fst (snd (ask_single post question t))) = pdfContext t
   \<and> systemPrompt (fst (snd (ask_single post question t))) = systemPrompt t"
  by (simp add: ask_def ask_single_def Let_def split: sum.split)

section \<open>The shape of the transcript\<close>

text \<open>
  C10: after any sequence of uploads and asks from the start of the process, failed
  asks included, the transcript is empty or starts with a user turn, and each of its
  assistant turns comes directly after a user turn. This holds in both variants.
\<close>

theorem reachable_transcript_ok:
  "transcript_ok (conversationHistory (serve rs multi_init))
   \<and> transcript_ok (conversationHistory (serve_single rs' single_init))"
proof -
  have "transcript_ok (conversationHistory multi_init)"
    and "transcript_ok (conversationHistory single_init)"
    by (simp_all add: transcript_ok_def multi_init_def single_init_def)
  then show ?thesis
    by (simp add: serve_transcript_ok serve_single_transcript_ok)
qed

theorem reachable_transcript_ok_witness:
  "conversationHistory
     (serve [Upload header_parser [report_pdf] None,
             Ask provider_down (JStr ''Revenue?''),
             Upload header_parser [too_large] None,
             Ask (provider_says (JStr ''$5M'')) (JStr ''Again?'')] multi_init)
   = [user_turn (JStr ''Revenue?''), user_turn (JStr ''Again?''), assistant_turn (JStr ''$5M'')]
   \<and> transcript_ok
       [user_turn (JStr ''Revenue?''), user_turn (JStr ''Again?''), assistant_turn (JStr ''$5M'')]
   \<and> conversationHistory
     (serve_single [Upload_single header_parser (Inr pdf_header),
             Ask_single provider_down (JStr ''Revenue?''),
             Upload_single header_parser (Inl ''request file too large''),
             Ask_single (provider_says (JStr ''$5M'')) (JStr ''Again?'')] single_init)
   = [user_turn (JStr ''Revenue?''), user_turn (JStr ''Again?''), assistant_turn (JStr ''$5M'')]"
proof -
  have multi: "conversationHistory
     (serve [Upload header_parser [report_pdf] None,
             Ask provider_down (JStr ''Revenue?''),
             Upload header_parser [too_large] None,
             Ask (provider_says (JStr ''$5M'')) (JStr ''Again?'')] multi_init)
   = [user_turn (JStr ''Revenue?''), user_turn (JStr ''Again?''), assistant_turn (JStr ''$5M'')]"
    by (simp add: serve_def upload_cases header_parser_def report_pdf_def too_large_def
        assign_all_def assign_def
        multi_init_def ask_def Let_def Object_keys_empty callClaudeAPI_def provider_down_def
        provider_says_def)
  have single: "conversationHistory
     (serve_single [Upload_single header_parser (Inr pdf_header),
             Ask_single provider_down (JStr ''Revenue?''),
             Upload_single header_parser (Inl ''request file too large''),
             Ask_single (provider_says (JStr ''$5M'')) (JStr ''Again?'')] single_init)
   = [user_turn (JStr ''Revenue?''), user_turn (JStr ''Again?''), assistant_turn (JStr ''$5M'')]"
    by (simp add: serve_single_def upload_single_def prompt_single_def header_parser_def
        pdf_header_def
        single_init_def ask_single_def Let_def callClaudeAPI_def provider_down_def
        provider_says_def)
  from reachable_transcript_ok [where rs = "[Upload header_parser [report_pdf] None,
             Ask provider_down (JStr ''Revenue?''),
             Upload header_parser [too_large] None,
             Ask (provider_says (JStr ''$5M'')) (JStr ''Again?'')]"]
  have "transcript_ok
       [user_turn (JStr ''Revenue?''), user_turn (JStr ''Again?''), assistant_turn (JStr ''$5M'')]"
    unfolding multi by simp
  with multi single show ?thesis by simp
qed

end
